theory Spec2Isabelle
  imports Main
begin

section \<open>The mock C++ agent: \<^verbatim>\<open>mock_cpp_agent/send_report.cpp\<close>\<close>

text \<open>
  The repository is one translation unit with one function, \<^verbatim>\<open>main\<close>. It checks
  \<^verbatim>\<open>argc\<close>, copies \<^verbatim>\<open>argv[1]\<close> and \<^verbatim>\<open>argv[2]\<close>, builds a literal JSON
  document, configures a libcurl easy handle and calls \<^verbatim>\<open>curl_easy_perform\<close> once.

  The embedding keeps that shape. What \<^verbatim>\<open>main\<close> cannot decide is a parameter of type
  \<open>env\<close>: whether \<^verbatim>\<open>curl_easy_init\<close> yields a handle, what the network answers to
  the \<open>k\<close>-th request of the process, and the message table of
  \<^verbatim>\<open>curl_easy_strerror\<close>. What \<^verbatim>\<open>main\<close> does to the outside is a list of events in
  program order: text written to \<^verbatim>\<open>std::cerr\<close> and requests handed to
  \<^verbatim>\<open>curl_easy_perform\<close>. Memory allocation is taken to succeed.
\<close>

subsection \<open>C strings\<close>

text \<open>
  \<^verbatim>\<open>argv[i]\<close>, \<^verbatim>\<open>s.c_str()\<close> and the argument of \<^verbatim>\<open>curl_slist_append\<close> are
  \<^verbatim>\<open>const char *\<close>: whoever reads one reads the characters before the first NUL.
\<close>

definition c_str :: "string \<Rightarrow> string" where
  "c_str s = takeWhile (\<lambda>c. c \<noteq> CHR 0x00) s"

subsection \<open>libcurl, as far as the program uses it\<close>

text \<open>
  \<^verbatim>\<open>CURLcode\<close> is a C enumeration; \<^verbatim>\<open>CURLE_OK\<close> is its value 0. The other names
  are the values of \<^verbatim>\<open>curl/curl.h\<close> that the scenarios below mention.
\<close>

type_synonym CURLcode = nat

definition CURLE_OK :: CURLcode where
  "CURLE_OK = 0"

definition CURLE_COULDNT_CONNECT :: CURLcode where
  "CURLE_COULDNT_CONNECT = 7"

definition CURLE_HTTP_RETURNED_ERROR :: CURLcode where
  "CURLE_HTTP_RETURNED_ERROR = 22"

definition CURLE_OPERATION_TIMEDOUT :: CURLcode where
  "CURLE_OPERATION_TIMEDOUT = 28"

datatype http_method = GET | POST

text \<open>
  The options of an easy handle that decide the request. \<^verbatim>\<open>curl_easy_init\<close> returns a
  handle with the defaults of \<open>fresh_handle\<close>: no URL, no custom headers, no POST data,
  \<^verbatim>\<open>CURLOPT_POSTFIELDSIZE\<close> at -1 (measure the data with \<^verbatim>\<open>strlen\<close>) and
  \<^verbatim>\<open>CURLOPT_FAILONERROR\<close> off.
\<close>

record easy_handle =
  opt_url :: string
  opt_httpheader :: "string list"
  opt_postfields :: "string option"
  opt_postfieldsize :: int
  opt_failonerror :: bool

definition fresh_handle :: easy_handle where
  "fresh_handle = \<lparr>opt_url = [], opt_httpheader = [], opt_postfields = None,
     opt_postfieldsize = - 1, opt_failonerror = False\<rparr>"

datatype curl_option =
    CURLOPT_URL string
  | CURLOPT_HTTPHEADER "string list"
  | CURLOPT_POSTFIELDS string
  | CURLOPT_POSTFIELDSIZE int

text \<open>
  \<^verbatim>\<open>CURLOPT_URL\<close> copies the C string it is given; \<^verbatim>\<open>CURLOPT_HTTPHEADER\<close> and
  \<^verbatim>\<open>CURLOPT_POSTFIELDS\<close> keep the pointer. The program ignores the return value of
  \<^verbatim>\<open>curl_easy_setopt\<close>.
\<close>

fun curl_easy_setopt :: "easy_handle \<Rightarrow> curl_option \<Rightarrow> easy_handle" where
  "curl_easy_setopt h (CURLOPT_URL u) = h\<lparr>opt_url := c_str u\<rparr>"
| "curl_easy_setopt h (CURLOPT_HTTPHEADER hs) = h\<lparr>opt_httpheader := hs\<rparr>"
| "curl_easy_setopt h (CURLOPT_POSTFIELDS d) = h\<lparr>opt_postfields := Some d\<rparr>"
| "curl_easy_setopt h (CURLOPT_POSTFIELDSIZE n) = h\<lparr>opt_postfieldsize := n\<rparr>"

text \<open>\<^verbatim>\<open>curl_slist_append\<close> copies the C string and puts it at the end of the list.\<close>

definition curl_slist_append :: "string list \<Rightarrow> string \<Rightarrow> string list" where
  "curl_slist_append hs s = hs @ [c_str s]"

record request =
  req_method :: http_method
  req_url :: string
  req_headers :: "string list"
  req_body :: string

text \<open>
  The request a configured handle stands for. Setting \<^verbatim>\<open>CURLOPT_POSTFIELDS\<close> makes the
  request a POST; its body is the first \<^verbatim>\<open>CURLOPT_POSTFIELDSIZE\<close> bytes at the pointer,
  or the C string there when the size is negative. \<open>req_headers\<close> is the list given with
  \<^verbatim>\<open>CURLOPT_HTTPHEADER\<close>, in order.
\<close>

definition request_of :: "easy_handle \<Rightarrow> request" where
  "request_of h =
     \<lparr>req_method = (case opt_postfields h of None \<Rightarrow> GET | Some d \<Rightarrow> POST),
      req_url = opt_url h,
      req_headers = opt_httpheader h,
      req_body = (case opt_postfields h of
                    None \<Rightarrow> []
                  | Some d \<Rightarrow> if opt_postfieldsize h < 0 then c_str d
                              else take (nat (opt_postfieldsize h)) d)\<rparr>"

text \<open>
  What becomes of one request: the server answers with an HTTP status, or the transfer
  fails below HTTP with a \<^verbatim>\<open>CURLcode\<close>.
\<close>

datatype transfer = Http_response nat | Transfer_error CURLcode

record env =
  curl_available :: bool
  network :: "nat \<Rightarrow> request \<Rightarrow> transfer"
  curl_easy_strerror :: "CURLcode \<Rightarrow> string"

datatype event = Stderr string | Perform request

definition curl_easy_init :: "env \<Rightarrow> easy_handle option" where
  "curl_easy_init e = (if curl_available e then Some fresh_handle else None)"

text \<open>
  The code \<^verbatim>\<open>curl_easy_perform\<close> returns: an HTTP answer of any status is
  \<^verbatim>\<open>CURLE_OK\<close> unless \<^verbatim>\<open>CURLOPT_FAILONERROR\<close> is set and the status is 400 or more.
\<close>

definition perform_code :: "easy_handle \<Rightarrow> transfer \<Rightarrow> CURLcode" where
  "perform_code h t =
     (case t of
        Http_response s \<Rightarrow>
          if opt_failonerror h \<and> 400 \<le> s then CURLE_HTTP_RETURNED_ERROR else CURLE_OK
      | Transfer_error c \<Rightarrow> c)"

definition attempts :: "event list \<Rightarrow> request list" where
  "attempts tr = concat (map (\<lambda>ev. case ev of Perform r \<Rightarrow> [r] | Stderr s \<Rightarrow> []) tr)"

definition stderr_text :: "event list \<Rightarrow> string" where
  "stderr_text tr = concat (map (\<lambda>ev. case ev of Stderr s \<Rightarrow> s | Perform r \<Rightarrow> []) tr)"

text \<open>
  \<^verbatim>\<open>curl_easy_perform\<close> blocks until the transfer is over. The network is asked with
  the number of requests the process has issued before this one.
\<close>

definition curl_easy_perform :: "env \<Rightarrow> easy_handle \<Rightarrow> event list \<Rightarrow> CURLcode \<times> event list" where
  "curl_easy_perform e h tr =
     (let r = request_of h
      in (perform_code h (network e (length (attempts tr)) r), tr @ [Perform r]))"

subsection \<open>The payload\<close>

text \<open>The raw string literal \<^verbatim>\<open>json\<close> of lines 15 to 21, line by line.\<close>

definition json :: string where
  \<open>json =
     ''{'' @ [CHR 0x0A] @
     ''      "agent_name": "mock-cpp-agent",'' @ [CHR 0x0A] @
     ''      "project_id": 1,'' @ [CHR 0x0A] @
     ''      "run_id": "run-123",'' @ [CHR 0x0A] @
     ''      "meta": { "hostname": "mock-runner", "timestamp": "2025-11-07T12:00:00Z", "duration_seconds": 12.5 },'' @ [CHR 0x0A] @
     ''      "payload": { "performance": { "functions": [ { "name": "doWork", "p75_ms": 10.2, "p95_ms": 20.1, "allocations": 5 } ], "max_memory_mb": 128 }, "fuzz": { "runs": 1000, "crashes": [] } }'' @ [CHR 0x0A] @
     ''    }''\<close>

subsection \<open>\<^verbatim>\<open>main\<close>\<close>

text \<open>
  \<open>argv\<close> is the argument vector with the program name first, \<^verbatim>\<open>argc\<close> its length.
  With \<^verbatim>\<open>argc = 0\<close> the usage line streams the null pointer \<^verbatim>\<open>argv[0]\<close>, which C++
  leaves undefined: the model stops there with a fault. Everywhere else the result is the
  value \<^verbatim>\<open>main\<close> returns, which is the exit code of the process, and the events in order.
  \<^verbatim>\<open>curl_slist_free_all\<close> and \<^verbatim>\<open>curl_easy_cleanup\<close> on line 33 release memory and
  leave no event; the response body, which libcurl copies to standard output, is not
  modelled.
\<close>

datatype fault = Null_argv0

definition main :: "env \<Rightarrow> string list \<Rightarrow> fault + (int \<times> event list)" where
  "main e argv =
     (if length argv < 3 then
        (case argv of
           [] \<Rightarrow> Inl Null_argv0
         | a0 # rest \<Rightarrow>
             Inr (1, [Stderr (''Usage: '' @ c_str a0 @ '' <url> <agent_token>'' @ [CHR 0x0A])]))
      else
        let url = c_str (argv ! 1);
            token = c_str (argv ! 2)
        in (case curl_easy_init e of
              None \<Rightarrow> Inr (1, [Stderr (''curl init failed'' @ [CHR 0x0A])])
            | Some curl0 \<Rightarrow>
                let headers0 = curl_slist_append [] ''Content-Type: application/json'';
                    auth = ''X-Agent-Token: '' @ token;
                    headers = curl_slist_append headers0 auth;
                    curl1 = curl_easy_setopt curl0 (CURLOPT_URL url);
                    curl2 = curl_easy_setopt curl1 (CURLOPT_HTTPHEADER headers);
                    curl3 = curl_easy_setopt curl2 (CURLOPT_POSTFIELDS json);
                    curl4 = curl_easy_setopt curl3 (CURLOPT_POSTFIELDSIZE (int (length json)));
                    (res, tr) = curl_easy_perform e curl4 []
                in Inr (0, if res \<noteq> CURLE_OK
                           then tr @ [Stderr (''curl failed: '' @ curl_easy_strerror e res @ [CHR 0x0A])]
                           else tr)))"

text \<open>Readers of a result.\<close>

definition exit_code :: "fault + (int \<times> event list) \<Rightarrow> int option" where
  "exit_code r = (case r of Inl f \<Rightarrow> None | Inr (c, tr) \<Rightarrow> Some c)"

definition trace :: "fault + (int \<times> event list) \<Rightarrow> event list" where
  "trace r = (case r of Inl f \<Rightarrow> [] | Inr (c, tr) \<Rightarrow> tr)"

subsection \<open>The message on the wire\<close>

text \<open>
  What libcurl writes to the connection for one request over HTTP/1.1, as far as the
  claim on the body needs it. The message is a header section of lines that each end in
  CR LF, an empty line, and the body. libcurl writes lines of its own before the custom
  lines (the request line, \<^verbatim>\<open>Host\<close>, \<^verbatim>\<open>Accept\<close>) and after them
  (\<^verbatim>\<open>Content-Length\<close>); they depend on the URL and on the library and are the
  parameters \<open>pre\<close> and \<open>post\<close>. A custom line is written as it stands, followed by
  CR LF, unless nothing but white space follows its colon: then it is not written. Lines
  without a colon and the header names libcurl keeps to itself do not occur among the two
  lines of the program and are left out.
\<close>

definition CR :: char where
  "CR = CHR 0x0D"

definition LF :: char where
  "LF = CHR 0x0A"

definition is_space :: "char \<Rightarrow> bool" where
  "is_space c = (c = CHR 0x20 \<or> c = CHR 0x09 \<or> c = CHR 0x0A \<or> c = CHR 0x0B
                 \<or> c = CHR 0x0C \<or> c = CHR 0x0D)"

definition header_is_sent :: "string \<Rightarrow> bool" where
  "header_is_sent h =
     (let name = takeWhile (\<lambda>c. c \<noteq> CHR '':'') h;
          val = drop (Suc (length name)) h
      in name \<noteq> [] \<and> length name < length h \<and> dropWhile is_space val \<noteq> [])"

definition header_section :: "string list \<Rightarrow> string" where
  "header_section ls = concat (map (\<lambda>l. l @ [CR, LF]) ls)"

definition wire_bytes :: "string list \<Rightarrow> string list \<Rightarrow> request \<Rightarrow> string" where
  "wire_bytes pre post r =
     header_section (pre @ filter header_is_sent (req_headers r) @ post) @ [CR, LF] @ req_body r"

text \<open>
  The receiving side: the header section ends at the first empty line, that is at the
  first CR LF CR LF, and the message body is what follows it. (How many of these bytes a
  server takes is decided by the \<^verbatim>\<open>Content-Length\<close> line it finds in the header
  section.)
\<close>

fun message_body :: "string \<Rightarrow> string" where
  "message_body (a # b # c # d # xs) =
     (if a = CR \<and> b = LF \<and> c = CR \<and> d = LF then xs else message_body (b # c # d # xs))"
| "message_body xs = []"

subsection \<open>Vocabulary of the statements\<close>

text \<open>
  The request the program is expected to build for a URL \<open>u\<close> and a token \<open>t\<close>; that
  \<^verbatim>\<open>main\<close> builds this one is \<open>main_performed\<close> below.
\<close>

definition report_request :: "string \<Rightarrow> string \<Rightarrow> request" where
  "report_request u t =
     \<lparr>req_method = POST, req_url = u,
      req_headers = [''Content-Type: application/json'', ''X-Agent-Token: '' @ t],
      req_body = json\<rparr>"

text \<open>What \<open>perform_code\<close> comes to on a handle that leaves \<^verbatim>\<open>CURLOPT_FAILONERROR\<close> off.\<close>

definition transfer_code :: "transfer \<Rightarrow> CURLcode" where
  "transfer_code t = (case t of Http_response s \<Rightarrow> CURLE_OK | Transfer_error c \<Rightarrow> c)"

text \<open>
  Test environments: libcurl initialises, every request meets the same fate \<open>t\<close>, and
  the message table knows two codes.
\<close>

definition sample_strerror :: "CURLcode \<Rightarrow> string" where
  "sample_strerror c =
     (if c = CURLE_COULDNT_CONNECT then ''Could not connect to server''
      else if c = CURLE_OPERATION_TIMEDOUT then ''Timeout was reached''
      else ''Unknown error'')"

definition always :: "transfer \<Rightarrow> env" where
  "always t = \<lparr>curl_available = True, network = (\<lambda>k r. t),
     curl_easy_strerror = sample_strerror\<rparr>"

definition no_curl :: env where
  "no_curl = \<lparr>curl_available = False, network = (\<lambda>k r. Http_response 200),
     curl_easy_strerror = sample_strerror\<rparr>"

definition sample_url :: string where
  "sample_url = ''http://localhost:8000/api/v1/agents/cpp/report''"

text \<open>
  The lines libcurl adds for \<open>sample_url\<close> and a body of 394 bytes, and a token that
  carries a line end, a header line of its own, an empty line and seven more bytes.
\<close>

definition sample_pre :: "string list" where
  "sample_pre = [''POST /api/v1/agents/cpp/report HTTP/1.1'', ''Host: localhost:8000'',
     ''Accept: */*'']"

definition sample_post :: "string list" where
  "sample_post = [''Content-Length: 394'']"

definition splitting_token :: string where
  "splitting_token = ''x'' @ [CR, LF] @ ''Content-Length: 7'' @ [CR, LF, CR, LF] @ ''PAYLOAD''"

section \<open>Properties\<close>

subsection \<open>C strings and the handle\<close>

lemma c_str_idem: "c_str (c_str s) = c_str s"
  by (simp add: c_str_def)

lemma c_str_id: "CHR 0x00 \<notin> set s \<Longrightarrow> c_str s = s"
  by (induction s) (auto simp add: c_str_def)

lemma c_str_prefix: "CHR 0x00 \<notin> set p \<Longrightarrow> c_str (p @ c_str s) = p @ c_str s"
proof (rule c_str_id)
  assume p: "CHR 0x00 \<notin> set p"
  have "CHR 0x00 \<notin> set (c_str s)"
    unfolding c_str_def by (auto dest: set_takeWhileD)
  with p show "CHR 0x00 \<notin> set (p @ c_str s)" by simp
qed

lemma c_str_content_type:
  "c_str ''Content-Type: application/json'' = ''Content-Type: application/json''"
  by (simp add: c_str_def)

lemma c_str_auth: "c_str (''X-Agent-Token: '' @ c_str s) = ''X-Agent-Token: '' @ c_str s"
  by (rule c_str_prefix) simp

lemma perform_code_default: "\<not> opt_failonerror h \<Longrightarrow> perform_code h t = transfer_code t"
  by (simp add: perform_code_def transfer_code_def split: transfer.split)

lemma setopt_failonerror: "opt_failonerror (curl_easy_setopt h x) = opt_failonerror h"
  by (cases x) simp_all

lemma fresh_failonerror: "\<not> opt_failonerror fresh_handle"
  by (simp add: fresh_handle_def)

text \<open>The four \<^verbatim>\<open>curl_easy_setopt\<close> calls of lines 27 to 30 configure \<open>report_request\<close>.\<close>

lemma request_of_configured:
  "request_of
     (curl_easy_setopt
       (curl_easy_setopt
         (curl_easy_setopt
           (curl_easy_setopt fresh_handle (CURLOPT_URL (c_str u)))
           (CURLOPT_HTTPHEADER
             (curl_slist_append (curl_slist_append [] ''Content-Type: application/json'')
                (''X-Agent-Token: '' @ c_str t))))
         (CURLOPT_POSTFIELDS json))
       (CURLOPT_POSTFIELDSIZE (int (length json))))
   = report_request (c_str u) (c_str t)"
  by (simp add: request_of_def fresh_handle_def curl_slist_append_def report_request_def
      c_str_content_type c_str_auth c_str_idem del: append.simps)

subsection \<open>The three ways through \<^verbatim>\<open>main\<close>\<close>

lemma main_usage:
  "length (a0 # rest) < 3 \<Longrightarrow>
   main e (a0 # rest) =
     Inr (1, [Stderr (''Usage: '' @ c_str a0 @ '' <url> <agent_token>'' @ [CHR 0x0A])])"
  by (simp add: main_def)

lemma main_init_failed:
  "3 \<le> length argv \<Longrightarrow> \<not> curl_available e \<Longrightarrow>
   main e argv = Inr (1, [Stderr (''curl init failed'' @ [CHR 0x0A])])"
  by (simp add: main_def curl_easy_init_def)

lemma main_performed:
  assumes "3 \<le> length argv" and "curl_available e"
  shows "main e argv =
     Inr (0, Perform (report_request (c_str (argv ! 1)) (c_str (argv ! 2))) #
             (if transfer_code (network e 0
                   (report_request (c_str (argv ! 1)) (c_str (argv ! 2)))) \<noteq> CURLE_OK
              then [Stderr (''curl failed: '' @
                     curl_easy_strerror e (transfer_code (network e 0
                       (report_request (c_str (argv ! 1)) (c_str (argv ! 2))))) @ [CHR 0x0A])]
              else []))"
proof -
  have len: "\<not> length argv < 3" using assms(1) by simp
  show ?thesis
    unfolding main_def curl_easy_init_def curl_easy_perform_def Let_def
    using len assms(2)
    by (simp add: request_of_configured perform_code_default setopt_failonerror
          fresh_failonerror attempts_def del: append.simps curl_easy_setopt.simps)
qed


subsection \<open>Reading results\<close>

lemma attempts_simps:
  "attempts [] = []"
  "attempts (Perform r # tr) = r # attempts tr"
  "attempts (Stderr s # tr) = attempts tr"
  by (simp_all add: attempts_def)

lemma stderr_text_simps:
  "stderr_text [] = []"
  "stderr_text (Perform r # tr) = stderr_text tr"
  "stderr_text (Stderr s # tr) = s @ stderr_text tr"
  by (simp_all add: stderr_text_def)

lemma exit_code_Inr: "exit_code (Inr (c, tr)) = Some c"
  by (simp add: exit_code_def)

lemma trace_Inr: "trace (Inr (c, tr)) = tr"
  by (simp add: trace_def)

lemma always_simps:
  "curl_available (always t) = True"
  "network (always t) k r = t"
  "curl_easy_strerror (always t) = sample_strerror"
  by (simp_all add: always_def)

lemma transfer_code_simps:
  "transfer_code (Http_response s) = CURLE_OK"
  "transfer_code (Transfer_error c) = c"
  by (simp_all add: transfer_code_def)

lemma length_json: "length json = 394"
  unfolding json_def by simp

lemma json_neq_short: "length s < 394 \<Longrightarrow> json \<noteq> s"
  using length_json by auto

text \<open>
  Every run ends in one of four ways: the fault, one line on \<^verbatim>\<open>std::cerr\<close> and exit
  code 1, one request and exit code 0, or one request, one line on \<^verbatim>\<open>std::cerr\<close> and
  exit code 0.
\<close>

lemma main_cases:
  "main e argv = Inl Null_argv0
   \<or> (\<exists>s. main e argv = Inr (1, [Stderr s]))
   \<or> (\<exists>r. main e argv = Inr (0, [Perform r]))
   \<or> (\<exists>r s. main e argv = Inr (0, [Perform r, Stderr s]))"
proof (cases "length argv < 3")
  case True
  then show ?thesis by (cases argv) (simp_all add: main_def)
next
  case False
  then have len: "3 \<le> length argv" by simp
  show ?thesis
  proof (cases "curl_available e")
    case True
    with len show ?thesis by (simp add: main_performed)
  next
    case False
    with len show ?thesis by (simp add: main_init_failed)
  qed
qed

lemma attempts_main:
  "attempts (trace (main e argv)) =
     (if 3 \<le> length argv \<and> curl_available e
      then [report_request (c_str (argv ! 1)) (c_str (argv ! 2))] else [])"
proof (cases "length argv < 3")
  case True
  then show ?thesis
    by (cases argv) (simp_all add: main_def trace_def attempts_simps)
next
  case False
  then have len: "3 \<le> length argv" by simp
  show ?thesis
  proof (cases "curl_available e")
    case True
    with len show ?thesis
      by (simp add: main_performed trace_Inr attempts_simps)
  next
    case False
    with len show ?thesis
      by (simp add: main_init_failed trace_Inr attempts_simps)
  qed
qed

subsection \<open>Where the header section ends\<close>

lemma message_body_skip:
  assumes "a \<noteq> CR"
  shows "message_body (a # xs) = message_body xs"
proof (cases xs)
  case Nil
  then show ?thesis by simp
next
  case (Cons b ys)
  note xs = this
  show ?thesis
  proof (cases ys)
    case Nil
    with xs show ?thesis by simp
  next
    case (Cons c zs)
    with xs assms show ?thesis by (cases zs) simp_all
  qed
qed

lemma message_body_skip_line: "CR \<notin> set l \<Longrightarrow> message_body (l @ xs) = message_body xs"
proof (induction l)
  case Nil
  then show ?case by simp
next
  case (Cons a l)
  then have "a \<noteq> CR" by auto
  with Cons show ?case by (simp add: message_body_skip)
qed

lemma message_body_next_line:
  "x \<noteq> CR \<Longrightarrow> message_body (CR # LF # x # xs) = message_body (x # xs)"
  by (cases xs) (simp_all add: message_body_skip LF_def CR_def)

lemma message_body_header_section:
  assumes "ls \<noteq> []" and "\<And>l. l \<in> set ls \<Longrightarrow> l \<noteq> [] \<and> CR \<notin> set l"
  shows "message_body (header_section ls @ [CR, LF] @ body) = body"
  using assms
proof (induction ls)
  case Nil
  then show ?case by simp
next
  case (Cons l ls)
  have l: "l \<noteq> []" "CR \<notin> set l" using Cons.prems(2) by auto
  show ?case
  proof (cases ls)
    case Nil
    then show ?thesis using l
      by (simp add: header_section_def message_body_skip_line)
  next
    case (Cons m ms)
    have m: "m \<noteq> []" "CR \<notin> set m" using Cons.prems(2) \<open>ls = m # ms\<close> by auto
    then obtain x m' where mx: "m = x # m'" "x \<noteq> CR" by (cases m) auto
    have IH: "message_body (header_section ls @ [CR, LF] @ body) = body"
      using Cons.IH Cons.prems(2) \<open>ls = m # ms\<close> by simp
    have "message_body (header_section (l # ls) @ [CR, LF] @ body)
          = message_body (CR # LF # header_section ls @ [CR, LF] @ body)"
      using l by (simp add: header_section_def message_body_skip_line)
    also have "\<dots> = message_body (header_section ls @ [CR, LF] @ body)"
      using \<open>ls = m # ms\<close> mx by (simp add: header_section_def message_body_next_line)
    finally show ?thesis using IH by simp
  qed
qed

lemma content_type_is_sent: "header_is_sent ''Content-Type: application/json''"
  by (simp add: header_is_sent_def is_space_def)

lemma message_body_report_request:
  assumes own: "\<forall>l \<in> set (pre @ post). l \<noteq> [] \<and> CR \<notin> set l \<and> LF \<notin> set l"
    and tok: "CR \<notin> set t"
  shows "message_body (wire_bytes pre post (report_request u t)) = json"
proof -
  let ?custom = "filter header_is_sent [''Content-Type: application/json'', ''X-Agent-Token: '' @ t]"
  have ne: "pre @ ?custom @ post \<noteq> []"
    by (simp add: content_type_is_sent)
  have ok: "l \<noteq> [] \<and> CR \<notin> set l" if "l \<in> set (pre @ ?custom @ post)" for l
  proof -
    from that consider "l \<in> set (pre @ post)" | "l = ''Content-Type: application/json''"
      | "l = ''X-Agent-Token: '' @ t"
      by (auto split: if_splits)
    then show ?thesis
    proof cases
      case 1
      with own show ?thesis by blast
    next
      case 2
      then show ?thesis by (simp add: CR_def)
    next
      case 3
      with tok show ?thesis by (simp add: CR_def)
    qed
  qed
  have "message_body (header_section (pre @ ?custom @ post) @ [CR, LF] @ json) = json"
    using ne ok by (rule message_body_header_section)
  then show ?thesis
    by (simp add: wire_bytes_def report_request_def del: append.simps filter.simps)
qed

section \<open>The claims\<close>

text \<open>
  The specification describes a report submitter \<^verbatim>\<open>submit\<close> with typed outcomes,
  retries and backoff. The repository has none of these: the statements below are about
  \<^verbatim>\<open>main\<close>, whose outcome is its exit code and what it wrote to \<^verbatim>\<open>std::cerr\<close>,
  and whose attempts are its calls of \<^verbatim>\<open>curl_easy_perform\<close>.
\<close>

subsection \<open>C1: exit code\<close>

text \<open>
  C1 says that the exit code is 0 when the submission succeeded and 1 when it failed, and
  nonzero in particular when the request fails at the network level.

  The program does not look at the HTTP status and returns 0 at the end of every run that
  reached \<^verbatim>\<open>curl_easy_perform\<close>. What holds for an invocation with a URL and a token:
  the exit code is 1 when \<^verbatim>\<open>curl_easy_init\<close> fails; it is 0, with nothing on
  \<^verbatim>\<open>std::cerr\<close>, when the server answered with any HTTP status; and a transfer that
  failed below HTTP is reported on \<^verbatim>\<open>std::cerr\<close> as \<^verbatim>\<open>curl failed: \<close> and the
  libcurl message. The statement is silent on the exit code after such a transfer.
\<close>

theorem C1_exit_code:
  assumes "3 \<le> length argv"
  shows "(\<not> curl_available e \<longrightarrow> exit_code (main e argv) = Some 1)
       \<and> (curl_available e \<longrightarrow>
            (\<forall>s. network e 0 (report_request (c_str (argv ! 1)) (c_str (argv ! 2))) = Http_response s
                 \<longrightarrow> exit_code (main e argv) = Some 0 \<and> stderr_text (trace (main e argv)) = []))
       \<and> (curl_available e \<longrightarrow>
            (\<forall>c. network e 0 (report_request (c_str (argv ! 1)) (c_str (argv ! 2))) = Transfer_error c
                   \<and> c \<noteq> CURLE_OK
                 \<longrightarrow> stderr_text (trace (main e argv)) =
                       ''curl failed: '' @ curl_easy_strerror e c @ [CHR 0x0A]))"
proof (intro conjI impI allI)
  assume "\<not> curl_available e"
  with assms show "exit_code (main e argv) = Some 1"
    by (simp add: main_init_failed exit_code_Inr)
next
  fix s
  assume "curl_available e"
    and "network e 0 (report_request (c_str (argv ! 1)) (c_str (argv ! 2))) = Http_response s"
  with assms show "exit_code (main e argv) = Some 0"
    by (simp add: main_performed exit_code_Inr)
next
  fix s
  assume "curl_available e"
    and "network e 0 (report_request (c_str (argv ! 1)) (c_str (argv ! 2))) = Http_response s"
  with assms show "stderr_text (trace (main e argv)) = []"
    by (simp add: main_performed trace_Inr transfer_code_simps stderr_text_simps)
next
  fix c
  assume "curl_available e"
    and "network e 0 (report_request (c_str (argv ! 1)) (c_str (argv ! 2))) = Transfer_error c
           \<and> c \<noteq> CURLE_OK"
  with assms show "stderr_text (trace (main e argv)) =
      ''curl failed: '' @ curl_easy_strerror e c @ [CHR 0x0A]"
    by (simp add: main_performed trace_Inr transfer_code_simps stderr_text_simps)
qed

theorem C1_exit_code_witness:
  "exit_code (main no_curl [''send_report'', sample_url, ''secret'']) = Some 1
   \<and> exit_code (main (always (Http_response 200)) [''send_report'', sample_url, ''secret'']) = Some 0
   \<and> stderr_text (trace (main (always (Http_response 200)) [''send_report'', sample_url, ''secret''])) = []
   \<and> stderr_text (trace (main (always (Transfer_error CURLE_OPERATION_TIMEDOUT))
         [''send_report'', sample_url, ''secret''])) = ''curl failed: Timeout was reached'' @ [CHR 0x0A]"
  using C1_exit_code [of "[''send_report'', sample_url, ''secret'']" no_curl]
    C1_exit_code [of "[''send_report'', sample_url, ''secret'']" "always (Http_response 200)"]
    C1_exit_code [of "[''send_report'', sample_url, ''secret'']"
      "always (Transfer_error CURLE_OPERATION_TIMEDOUT)"]
  by (simp add: always_simps no_curl_def sample_strerror_def CURLE_OK_def
        CURLE_OPERATION_TIMEDOUT_def CURLE_COULDNT_CONNECT_def)

text \<open>
  C1 as it is written fails: against a server that answers 503 the process exits with 0 and
  prints nothing, and when no connection can be made it exits with 0 as well.
\<close>

theorem C1_counterexample:
  "exit_code (main (always (Http_response 503)) [''send_report'', sample_url, ''secret'']) = Some 0
   \<and> stderr_text (trace (main (always (Http_response 503)) [''send_report'', sample_url, ''secret''])) = []
   \<and> exit_code (main (always (Transfer_error CURLE_COULDNT_CONNECT))
         [''send_report'', sample_url, ''secret'']) = Some 0"
  by (simp add: main_performed always_simps transfer_code_simps exit_code_Inr trace_Inr
        stderr_text_simps)

subsection \<open>C2: no retry on 503\<close>

text \<open>
  C2 says that with an attempt limit \<open>N\<close> and a transport that answers 503 every time there
  are exactly \<open>N\<close> attempts and then the failure \<^verbatim>\<open>ExhaustedRetries\<close>.

  The program has no attempt limit: arguments after the token are not read. What holds:
  against a transport that answers 503 every time, an invocation with a URL and a token
  makes exactly one attempt, whatever else is on the command line, prints nothing and
  exits with 0.
\<close>

theorem C2_one_attempt_on_503:
  assumes "3 \<le> length argv" and "curl_available e"
    and "\<And>k r. network e k r = Http_response 503"
  shows "length (attempts (trace (main e argv))) = 1
       \<and> exit_code (main e argv) = Some 0
       \<and> stderr_text (trace (main e argv)) = []"
  using assms
  by (simp add: main_performed transfer_code_simps exit_code_Inr trace_Inr
        stderr_text_simps attempts_simps)

theorem C2_one_attempt_on_503_witness:
  "length (attempts (trace (main (always (Http_response 503))
      [''send_report'', sample_url, ''secret'', ''--max-attempts'', ''5'']))) = 1
   \<and> exit_code (main (always (Http_response 503))
      [''send_report'', sample_url, ''secret'', ''--max-attempts'', ''5'']) = Some 0
   \<and> stderr_text (trace (main (always (Http_response 503))
      [''send_report'', sample_url, ''secret'', ''--max-attempts'', ''5''])) = []"
  using C2_one_attempt_on_503 [of "[''send_report'', sample_url, ''secret'', ''--max-attempts'', ''5'']"
      "always (Http_response 503)"]
  by (simp add: always_simps)

text \<open>
  C2 as it is written fails for \<open>N = 3\<close>: one attempt, not three, and no failure reported.
\<close>

theorem C2_counterexample:
  "length (attempts (trace (main (always (Http_response 503))
      [''send_report'', sample_url, ''secret'', ''--max-attempts'', ''3'']))) = 1
   \<and> exit_code (main (always (Http_response 503))
      [''send_report'', sample_url, ''secret'', ''--max-attempts'', ''3'']) = Some 0
   \<and> stderr_text (trace (main (always (Http_response 503))
      [''send_report'', sample_url, ''secret'', ''--max-attempts'', ''3''])) = []"
  by (simp add: main_performed always_simps transfer_code_simps exit_code_Inr trace_Inr
        stderr_text_simps attempts_simps)

subsection \<open>C3: a 2xx answer\<close>

text \<open>
  C3 says that when the first attempt is answered with a status from 200 to 299 the
  outcome is a success that carries that status, after exactly one attempt and with no
  further request.

  What holds: the run consists of that one request and nothing else, and the exit code is
  0. The status is not part of the result: the program never reads it.
\<close>

theorem C3_success_after_one_attempt:
  assumes "3 \<le> length argv" and "curl_available e"
    and "network e 0 (report_request (c_str (argv ! 1)) (c_str (argv ! 2))) = Http_response s"
    and "200 \<le> s" and "s \<le> 299"
  shows "main e argv = Inr (0, [Perform (report_request (c_str (argv ! 1)) (c_str (argv ! 2)))])"
  using assms by (simp add: main_performed transfer_code_simps)

theorem C3_success_after_one_attempt_witness:
  "main (always (Http_response 201)) [''send_report'', sample_url, ''secret'']
     = Inr (0, [Perform (report_request sample_url ''secret'')])"
  using C3_success_after_one_attempt [of "[''send_report'', sample_url, ''secret'']"
      "always (Http_response 201)" 201]
  by (simp add: always_simps c_str_def sample_url_def)

text \<open>
  C3 as it is written fails: the results for the answers 200 and 204 are the same value,
  so no status can be read off the result.
\<close>

theorem C3_counterexample:
  "main (always (Http_response 200)) [''send_report'', sample_url, ''secret'']
     = main (always (Http_response 204)) [''send_report'', sample_url, ''secret'']
   \<and> main (always (Http_response 200)) [''send_report'', sample_url, ''secret'']
     = Inr (0, [Perform (report_request sample_url ''secret'')])"
  by (simp add: main_performed always_simps transfer_code_simps c_str_def sample_url_def)

subsection \<open>C4: a 4xx answer\<close>

text \<open>
  C4 says that a 404 on the first attempt, and any 4xx, gives exactly one attempt and the
  failure \<^verbatim>\<open>ClientError\<close>.

  What holds: for every status from 400 to 499 there is exactly one attempt, and the
  program reports no failure: nothing on \<^verbatim>\<open>std::cerr\<close>, exit code 0.
\<close>

theorem C4_one_attempt_on_4xx:
  assumes "3 \<le> length argv" and "curl_available e"
    and "network e 0 (report_request (c_str (argv ! 1)) (c_str (argv ! 2))) = Http_response s"
    and "400 \<le> s" and "s \<le> 499"
  shows "length (attempts (trace (main e argv))) = 1
       \<and> exit_code (main e argv) = Some 0
       \<and> stderr_text (trace (main e argv)) = []"
  using assms
  by (simp add: main_performed transfer_code_simps exit_code_Inr trace_Inr
        stderr_text_simps attempts_simps)

theorem C4_one_attempt_on_4xx_witness:
  "length (attempts (trace (main (always (Http_response 404))
      [''send_report'', sample_url, ''secret'']))) = 1
   \<and> exit_code (main (always (Http_response 404)) [''send_report'', sample_url, ''secret'']) = Some 0
   \<and> stderr_text (trace (main (always (Http_response 404))
      [''send_report'', sample_url, ''secret''])) = []"
  using C4_one_attempt_on_4xx [of "[''send_report'', sample_url, ''secret'']"
      "always (Http_response 404)" 404]
  by (simp add: always_simps)

text \<open>C4 as it is written fails at 404: the exit code is 0 and nothing is printed.\<close>

theorem C4_counterexample:
  "exit_code (main (always (Http_response 404)) [''send_report'', sample_url, ''secret'']) = Some 0
   \<and> stderr_text (trace (main (always (Http_response 404))
        [''send_report'', sample_url, ''secret''])) = []"
  by (simp add: main_performed always_simps transfer_code_simps exit_code_Inr trace_Inr
        stderr_text_simps)

subsection \<open>C6: the request on the wire\<close>

text \<open>
  C6 says that the request is a POST to the given URL with the headers
  \<^verbatim>\<open>Content-Type: application/json\<close> and \<^verbatim>\<open>X-Agent-Token: \<close> followed by the token,
  and that its body is the bytes the caller supplied.

  The caller supplies a URL and a token and nothing else; the body is the literal
  \<open>json\<close>. What holds: an invocation with a URL and a token, when libcurl initialises,
  hands libcurl exactly one request, a POST to the URL with exactly these two header lines
  in this order and the literal as body.
\<close>

theorem C6_wire_request:
  assumes "3 \<le> length argv" and "curl_available e"
  shows "attempts (trace (main e argv)) =
     [\<lparr>req_method = POST, req_url = c_str (argv ! 1),
       req_headers = [''Content-Type: application/json'', ''X-Agent-Token: '' @ c_str (argv ! 2)],
       req_body = json\<rparr>]"
  using assms
  by (simp add: main_performed trace_Inr attempts_simps report_request_def del: append.simps)

theorem C6_wire_request_witness:
  "attempts (trace (main (always (Http_response 200)) [''send_report'', sample_url, ''secret''])) =
     [\<lparr>req_method = POST, req_url = ''http://localhost:8000/api/v1/agents/cpp/report'',
       req_headers = [''Content-Type: application/json'', ''X-Agent-Token: secret''],
       req_body = json\<rparr>]"
  using C6_wire_request [of "[''send_report'', sample_url, ''secret'']" "always (Http_response 200)"]
  by (simp add: always_simps c_str_def sample_url_def)

text \<open>
  C6 as it is written fails: a caller who passes a body as a further argument finds the
  literal sent instead, which is none of the strings the caller passed.
\<close>

theorem C6_counterexample:
  "map req_body (attempts (trace (main (always (Http_response 200))
      [''send_report'', sample_url, ''secret'', ''{}'']))) = [json]
   \<and> json \<noteq> ''{}''
   \<and> json \<notin> set [''send_report'', sample_url, ''secret'', ''{}'']"
  by (simp add: main_performed always_simps transfer_code_simps trace_Inr attempts_simps
        report_request_def json_neq_short sample_url_def)

subsection \<open>C7: too few arguments\<close>

text \<open>
  C7: an invocation with fewer than two command-line arguments (the program name and at
  most one more string) prints the usage line to \<^verbatim>\<open>std::cerr\<close> and exits with 1
  without any HTTP call.
\<close>

theorem C7_usage:
  assumes "argv \<noteq> []" and "length argv < 3"
  shows "main e argv =
     Inr (1, [Stderr (''Usage: '' @ c_str (hd argv) @ '' <url> <agent_token>'' @ [CHR 0x0A])])
   \<and> exit_code (main e argv) = Some 1
   \<and> attempts (trace (main e argv)) = []"
proof -
  from assms(1) obtain a0 rest where argv: "argv = a0 # rest" by (cases argv) auto
  with assms(2) have "main e argv =
     Inr (1, [Stderr (''Usage: '' @ c_str a0 @ '' <url> <agent_token>'' @ [CHR 0x0A])])"
    by (simp only: main_usage)
  with argv show ?thesis
    by (simp add: exit_code_Inr trace_Inr attempts_simps)
qed

theorem C7_usage_witness:
  "main (always (Http_response 200)) [''./send_report'', sample_url] =
     Inr (1, [Stderr (''Usage: ./send_report <url> <agent_token>'' @ [CHR 0x0A])])
   \<and> exit_code (main (always (Http_response 200)) [''./send_report'', sample_url]) = Some 1
   \<and> attempts (trace (main (always (Http_response 200)) [''./send_report'', sample_url])) = []"
  using C7_usage [of "[''./send_report'', sample_url]" "always (Http_response 200)"]
  by (simp add: c_str_def exit_code_Inr trace_Inr attempts_simps)

subsection \<open>C8: the request is a function of URL and token\<close>

text \<open>
  C8: two invocations with the same URL and the same token build the same request,
  whatever the program name, the further arguments, the network and the message table
  are; nothing of an earlier invocation reaches a later one. The two environments agree
  only on whether libcurl initialises, since without a handle no request is built.
\<close>

theorem C8_same_arguments_same_request:
  assumes "3 \<le> length argv" and "3 \<le> length argv'"
    and "c_str (argv ! 1) = c_str (argv' ! 1)" and "c_str (argv ! 2) = c_str (argv' ! 2)"
    and "curl_available e = curl_available e'"
  shows "attempts (trace (main e argv)) = attempts (trace (main e' argv'))"
proof (cases "curl_available e")
  case True
  with assms show ?thesis
    by (simp add: main_performed trace_Inr attempts_simps)
next
  case False
  with assms show ?thesis
    by (simp add: main_init_failed trace_Inr attempts_simps)
qed

theorem C8_same_arguments_same_request_witness:
  "attempts (trace (main (always (Http_response 200)) [''send_report'', sample_url, ''secret'']))
   = attempts (trace (main (always (Transfer_error CURLE_COULDNT_CONNECT))
        [''./a.out'', sample_url, ''secret'', ''again'']))
   \<and> attempts (trace (main (always (Http_response 200)) [''send_report'', sample_url, ''secret'']))
   = [report_request sample_url ''secret'']"
  using C8_same_arguments_same_request [of "[''send_report'', sample_url, ''secret'']"
      "[''./a.out'', sample_url, ''secret'', ''again'']" "always (Http_response 200)"
      "always (Transfer_error CURLE_COULDNT_CONNECT)"]
  by (simp add: always_simps main_performed trace_Inr attempts_simps c_str_def sample_url_def)

subsection \<open>C9: the body does not depend on the arguments\<close>

text \<open>
  C9 says that the body of the HTTP request is one fixed constant that depends on neither
  argument, and that the token never appears in the body, only in the
  \<^verbatim>\<open>X-Agent-Token\<close> header.

  The program copies \<^verbatim>\<open>argv[2]\<close> into the header line as it is. What holds for an
  invocation with a URL and a token, when libcurl initialises: exactly one request is
  issued; the body handed to libcurl is the constant \<open>json\<close> whatever the arguments are,
  and the token is handed over in the second header line only; and when the token has
  neither CR nor LF in it, the body of the message on the wire is \<open>json\<close> too.
\<close>

theorem C9_body_is_the_literal:
  assumes "3 \<le> length argv" and "curl_available e"
    and "\<forall>l \<in> set (pre @ post). l \<noteq> [] \<and> CR \<notin> set l \<and> LF \<notin> set l"
  shows "\<exists>r. attempts (trace (main e argv)) = [r]
           \<and> req_body r = json
           \<and> req_headers r =
               [''Content-Type: application/json'', ''X-Agent-Token: '' @ c_str (argv ! 2)]
           \<and> (CR \<notin> set (c_str (argv ! 2)) \<and> LF \<notin> set (c_str (argv ! 2))
                \<longrightarrow> message_body (wire_bytes pre post r) = json)"
proof -
  let ?r = "report_request (c_str (argv ! 1)) (c_str (argv ! 2))"
  have a: "attempts (trace (main e argv)) = [?r]"
    using assms(1,2) by (simp add: attempts_main)
  have b: "req_body ?r = json"
    by (simp add: report_request_def)
  have c: "req_headers ?r =
      [''Content-Type: application/json'', ''X-Agent-Token: '' @ c_str (argv ! 2)]"
    by (simp add: report_request_def del: append.simps)
  have d: "message_body (wire_bytes pre post ?r) = json" if "CR \<notin> set (c_str (argv ! 2))"
    using assms(3) that by (rule message_body_report_request)
  from a b c d show ?thesis by blast
qed

theorem C9_body_is_the_literal_witness:
  "attempts (trace (main (always (Http_response 200)) [''send_report'', sample_url, ''secret'']))
     = [report_request sample_url ''secret'']
   \<and> req_body (report_request sample_url ''secret'') = json
   \<and> message_body (wire_bytes sample_pre sample_post (report_request sample_url ''secret'')) = json"
proof -
  have own: "\<forall>l \<in> set (sample_pre @ sample_post). l \<noteq> [] \<and> CR \<notin> set l \<and> LF \<notin> set l"
    by (simp add: sample_pre_def sample_post_def CR_def LF_def)
  have argv: "3 \<le> length [''send_report'', sample_url, ''secret'']" by simp
  have curl: "curl_available (always (Http_response 200))" by (simp add: always_simps)
  have tok: "c_str ([''send_report'', sample_url, ''secret''] ! 2) = ''secret''"
    by (simp add: c_str_def)
  have url: "c_str ([''send_report'', sample_url, ''secret''] ! 1) = sample_url"
    by (simp add: c_str_def sample_url_def)
  have r: "attempts (trace (main (always (Http_response 200)) [''send_report'', sample_url, ''secret'']))
     = [report_request sample_url ''secret'']"
    using argv curl by (simp only: attempts_main url tok if_True simp_thms)
  from C9_body_is_the_literal [OF argv curl own] r tok
  show ?thesis
    by (auto simp add: CR_def LF_def)
qed

text \<open>
  C9 as it is written fails for a token with CR LF CR LF in it: the header section of the
  message ends inside the token, with the \<^verbatim>\<open>Content-Length\<close> line the token brought,
  and the body that follows begins with the rest of the token.
\<close>

theorem C9_counterexample:
  "attempts (trace (main (always (Http_response 200)) [''send_report'', sample_url, splitting_token]))
     = [report_request sample_url splitting_token]
   \<and> wire_bytes sample_pre sample_post (report_request sample_url splitting_token)
     = header_section [''POST /api/v1/agents/cpp/report HTTP/1.1'', ''Host: localhost:8000'',
         ''Accept: */*'', ''Content-Type: application/json'', ''X-Agent-Token: x'',
         ''Content-Length: 7'']
       @ [CR, LF] @ ''PAYLOAD'' @ [CR, LF] @ ''Content-Length: 394'' @ [CR, LF, CR, LF] @ json
   \<and> message_body (wire_bytes sample_pre sample_post (report_request sample_url splitting_token))
     = ''PAYLOAD'' @ [CR, LF] @ ''Content-Length: 394'' @ [CR, LF, CR, LF] @ json
   \<and> message_body (wire_bytes sample_pre sample_post (report_request sample_url splitting_token))
     \<noteq> json"
proof -
  let ?r = "report_request sample_url splitting_token"
  let ?tail = "''PAYLOAD'' @ [CR, LF] @ ''Content-Length: 394'' @ [CR, LF, CR, LF] @ json"
  let ?head = "[''POST /api/v1/agents/cpp/report HTTP/1.1'', ''Host: localhost:8000'',
         ''Accept: */*'', ''Content-Type: application/json'', ''X-Agent-Token: x'',
         ''Content-Length: 7'']"
  have tok: "c_str splitting_token = splitting_token"
    by (simp add: c_str_def splitting_token_def CR_def LF_def)
  have url: "c_str sample_url = sample_url"
    by (simp add: c_str_def sample_url_def)
  have a: "attempts (trace (main (always (Http_response 200))
        [''send_report'', sample_url, splitting_token])) = [?r]"
    by (simp add: attempts_main always_simps tok url)
  have sent: "header_is_sent (''X-Agent-Token: '' @ splitting_token)"
    by (simp add: header_is_sent_def is_space_def splitting_token_def CR_def LF_def)
  have b: "wire_bytes sample_pre sample_post ?r = header_section ?head @ [CR, LF] @ ?tail"
    using sent
    by (simp add: wire_bytes_def report_request_def header_section_def sample_pre_def
          sample_post_def content_type_is_sent splitting_token_def)
  have c: "message_body (header_section ?head @ [CR, LF] @ ?tail) = ?tail"
    by (rule message_body_header_section) (auto simp add: CR_def)
  have d: "?tail \<noteq> json"
    by simp
  from a b c d show ?thesis by (simp only: simp_thms)
qed

subsection \<open>C10: at most one request\<close>

text \<open>
  C10: an invocation with at least two arguments issues at most one request. When
  \<^verbatim>\<open>curl_easy_init\<close> fails it exits with 1 and has sent nothing; otherwise
  \<^verbatim>\<open>curl_easy_perform\<close> is called exactly once, whatever the answer or the error.
\<close>

theorem C10_at_most_one_request:
  assumes "3 \<le> length argv"
  shows "(\<not> curl_available e \<longrightarrow>
            exit_code (main e argv) = Some 1 \<and> attempts (trace (main e argv)) = [])
       \<and> (curl_available e \<longrightarrow> length (attempts (trace (main e argv))) = 1)
       \<and> length (attempts (trace (main e argv))) \<le> 1"
proof (cases "curl_available e")
  case True
  with assms show ?thesis
    by (simp add: main_performed trace_Inr attempts_simps)
next
  case False
  with assms show ?thesis
    by (simp add: main_init_failed trace_Inr exit_code_Inr attempts_simps)
qed

theorem C10_at_most_one_request_witness:
  "exit_code (main no_curl [''send_report'', sample_url, ''secret'']) = Some 1
   \<and> attempts (trace (main no_curl [''send_report'', sample_url, ''secret''])) = []
   \<and> length (attempts (trace (main (always (Http_response 500))
        [''send_report'', sample_url, ''secret'']))) = 1
   \<and> length (attempts (trace (main (always (Transfer_error CURLE_COULDNT_CONNECT))
        [''send_report'', sample_url, ''secret'']))) = 1"
  using C10_at_most_one_request [of "[''send_report'', sample_url, ''secret'']" no_curl]
    C10_at_most_one_request [of "[''send_report'', sample_url, ''secret'']" "always (Http_response 500)"]
    C10_at_most_one_request [of "[''send_report'', sample_url, ''secret'']"
      "always (Transfer_error CURLE_COULDNT_CONNECT)"]
  by (simp add: always_simps no_curl_def)

end
